theory Spec2Isabelle
  imports Main "HOL-Library.Sublist"
begin

section \<open>Auto Slide Deck Generator: a shallow embedding of \<open>Auto_Deck_Generator.py\<close>\<close>

subsection \<open>Python strings\<close>

text \<open>
  A Python \<open>str\<close> is a sequence of Unicode code points and \<open>len\<close> counts code points, so a
  string is modelled as a list of code points (natural numbers), not as a list of bytes.
  \<open>pys\<close> writes an ASCII literal of the source as such a list.
\<close>

type_synonym pystr = "nat list"

definition pys :: "string \<Rightarrow> pystr" where
  "pys s = map of_char s"

text \<open>
  \<open>str.isspace\<close> for one code point, as \<open>str.strip()\<close> without arguments uses it: the ASCII
  controls 9-13 and 28-31, the space, and the Unicode white space beyond ASCII.
\<close>

definition isspace :: "nat \<Rightarrow> bool" where
  "isspace c \<longleftrightarrow>
     (9 \<le> c \<and> c \<le> 13) \<or> (28 \<le> c \<and> c \<le> 32) \<or> c = 133 \<or> c = 160 \<or> c = 5760 \<or>
     (8192 \<le> c \<and> c \<le> 8202) \<or> c = 8232 \<or> c = 8233 \<or> c = 8239 \<or> c = 8287 \<or> c = 12288"

definition strip :: "pystr \<Rightarrow> pystr" where
  "strip s = rev (dropWhile isspace (rev (dropWhile isspace s)))"

text \<open>\<open>name.replace(" ", "_")\<close>: every U+0020 becomes U+005F.\<close>

definition replace_space_underscore :: "pystr \<Rightarrow> pystr" where
  "replace_space_underscore s = map (\<lambda>c. if c = 32 then 95 else c) s"

text \<open>The character class \<open>A-Za-z0-9_.-\<close> of the regular expression in \<open>sanitize_filename\<close>.\<close>

definition filename_char :: "nat \<Rightarrow> bool" where
  "filename_char c \<longleftrightarrow>
     (65 \<le> c \<and> c \<le> 90) \<or> (97 \<le> c \<and> c \<le> 122) \<or> (48 \<le> c \<and> c \<le> 57) \<or>
     c = 95 \<or> c = 46 \<or> c = 45"

text \<open>
  \<^verbatim>\<open>
  def sanitize_filename(name):
      name = name.strip().replace(" ", "_")
      return re.sub(r"[^A-Za-z0-9_.-]", "", name)
  \<close>
\<close>

definition sanitize_filename :: "pystr \<Rightarrow> pystr" where
  "sanitize_filename name = filter filename_char (replace_space_underscore (strip name))"

text \<open>
  \<open>text[:k]\<close>: a negative bound counts from the end, and a bound beyond either end is cut
  to the string.
\<close>

definition slice_to :: "'a list \<Rightarrow> int \<Rightarrow> 'a list" where
  "slice_to xs k = (if k < 0 then take (nat (int (length xs) + k)) xs else take (nat k) xs)"

text \<open>
  \<^verbatim>\<open>
  def clamp(text, max_chars):
      if len(text) <= max_chars:
          return text
      return text[: max_chars - 3] + "..."
  \<close>
\<close>

definition clamp :: "pystr \<Rightarrow> int \<Rightarrow> pystr" where
  "clamp text max_chars =
     (if int (length text) \<le> max_chars then text
      else slice_to text (max_chars - 3) @ pys ''...'')"

text \<open>\<open>str(n)\<close> for a natural number and for an integer: the decimal digits.\<close>

function str_nat :: "nat \<Rightarrow> pystr" where
  "str_nat n = (if n < 10 then [48 + n] else str_nat (n div 10) @ [48 + n mod 10])"
  by pat_completeness auto
termination
  by (relation "measure (\<lambda>n. n)") auto

declare str_nat.simps [simp del]

definition str_int :: "int \<Rightarrow> pystr" where
  "str_int i = (if i < 0 then 45 # str_nat (nat (- i)) else str_nat (nat i))"

text \<open>\<open>sep.join(xs)\<close>.\<close>

fun join :: "pystr \<Rightarrow> pystr list \<Rightarrow> pystr" where
  "join sep [] = []"
| "join sep [x] = x"
| "join sep (x # y # ys) = x @ sep @ join sep (y # ys)"

text \<open>
  \<open>str.lower()\<close> on the code points \<open>sanitize_filename\<close> can return (all of them ASCII):
  \<open>A-Z\<close> become \<open>a-z\<close>, everything else stays. \<open>create_pptx\<close> lowers nothing else.
\<close>

definition lower :: "pystr \<Rightarrow> pystr" where
  "lower s = map (\<lambda>c. if 65 \<le> c \<and> c \<le> 90 then c + 32 else c) s"

text \<open>\<open>s.endswith(t)\<close>, written out so that it evaluates.\<close>

definition endswith :: "pystr \<Rightarrow> pystr \<Rightarrow> bool" where
  "endswith s t \<longleftrightarrow> length t \<le> length s \<and> drop (length s - length t) s = t"

subsection \<open>Errors\<close>

text \<open>
  The exceptions the program raises or meets, as values. \<open>RetryError\<close> is what the
  \<open>tenacity\<close> decorator raises when it gives up; it wraps the last attempt's exception.
  \<open>CollaboratorError\<close> stands for anything an external service raises.
\<close>

datatype py_error =
    RuntimeError string
  | ValueError string
  | AttributeError string
  | JSONDecodeError
  | CollaboratorError
  | RetryError py_error

subsection \<open>The web search module\<close>

record WebResult =
  title :: pystr
  snippet :: pystr
  url :: pystr

text \<open>A raw search hit is a dictionary from strings to strings; \<open>r.get(k, "")\<close> reads it.\<close>

type_synonym raw_hit = "(pystr \<times> pystr) list"

definition hit_get :: "raw_hit \<Rightarrow> pystr \<Rightarrow> pystr" where
  "hit_get r k = (case map_of r k of None \<Rightarrow> [] | Some v \<Rightarrow> v)"

text \<open>
  The body of the loop over \<open>ddgs.text(...)\<close>: a hit with neither title nor body is skipped;
  the URL is \<open>href\<close>, or \<open>url\<close> when \<open>href\<close> is empty after stripping.
\<close>

definition hit_result :: "raw_hit \<Rightarrow> WebResult option" where
  "hit_result r =
     (let t = strip (hit_get r (pys ''title''));
          s = strip (hit_get r (pys ''body''));
          h = strip (hit_get r (pys ''href''));
          l = (if h \<noteq> [] then h else strip (hit_get r (pys ''url'')))
      in if t \<noteq> [] \<or> s \<noteq> [] then Some \<lparr>title = t, snippet = s, url = l\<rparr> else None)"

definition collect_results :: "raw_hit list \<Rightarrow> WebResult list" where
  "collect_results hits = List.map_filter hit_result hits"

text \<open>\<^verbatim>\<open>f"[{i}] {r.title}\nSummary: {r.snippet}\nURL: {r.url}\n"\<close>\<close>

definition chunk :: "nat \<Rightarrow> WebResult \<Rightarrow> pystr" where
  "chunk i r =
     pys ''['' @ str_nat i @ pys ''] '' @ title r @ [10] @ pys ''Summary: '' @ snippet r @ [10] @
     pys ''URL: '' @ url r @ [10]"

text \<open>The loop over \<open>enumerate(results, start=1)\<close>, from position \<open>i\<close> on.\<close>

fun chunks_from :: "nat \<Rightarrow> WebResult list \<Rightarrow> pystr list" where
  "chunks_from i [] = []"
| "chunks_from i (r # rs) = chunk i r # chunks_from (Suc i) rs"

definition joined_context :: "WebResult list \<Rightarrow> pystr" where
  "joined_context results = join [10] (chunks_from 1 results)"

text \<open>
  \<open>get_web_results\<close>. The search collaborator is a parameter: \<open>None\<close> when the package is not
  installed (\<open>DDGS is None\<close>), otherwise the function from the query and the result limit to
  the hits, or to the exception the service raises.
\<close>

definition get_web_results ::
  "(pystr \<Rightarrow> int \<Rightarrow> py_error + raw_hit list) option \<Rightarrow> pystr \<Rightarrow> int \<Rightarrow>
   py_error + (WebResult list \<times> pystr)" where
  "get_web_results DDGS query max_results =
     (case DDGS of
        None \<Rightarrow> Inl (RuntimeError ''duckduckgo-search is not installed.'')
      | Some ddgs_text \<Rightarrow>
          (case ddgs_text query max_results of
             Inl e \<Rightarrow> Inl e
           | Inr hits \<Rightarrow>
               (let results = collect_results hits;
                    context = joined_context results
                in Inr (results, clamp context 6000))))"

subsection \<open>Parsed JSON\<close>

text \<open>
  What \<open>json.loads\<close> returns: \<open>None\<close>, a bool, an int, a float, a str, a list or a dict with
  string keys. A float is kept as the two things this program can observe of it: whether it
  is zero (its truth value) and its \<open>str()\<close>. A dict is an association list read with
  \<open>map_of\<close>.
\<close>

datatype pyfloat = PyFloat (float_is_zero: bool) (float_str: pystr)

datatype json =
    JNull
  | JBool bool
  | JInt int
  | JFloat pyfloat
  | JStr pystr
  | JList "json list"
  | JDict "(pystr \<times> json) list"

text \<open>\<open>isinstance(v, dict)\<close>.\<close>

fun is_dict :: "json \<Rightarrow> bool" where
  "is_dict (JDict d) = True"
| "is_dict v = False"

text \<open>\<open>type(v).__name__\<close>, as the message of an \<open>AttributeError\<close> names it.\<close>

fun type_name :: "json \<Rightarrow> string" where
  "type_name JNull = ''NoneType''"
| "type_name (JBool b) = ''bool''"
| "type_name (JInt i) = ''int''"
| "type_name (JFloat f) = ''float''"
| "type_name (JStr s) = ''str''"
| "type_name (JList xs) = ''list''"
| "type_name (JDict d) = ''dict''"

text \<open>The truth value of a parsed value (\<open>if bullets\<close>).\<close>

fun truthy :: "json \<Rightarrow> bool" where
  "truthy JNull = False"
| "truthy (JBool b) = b"
| "truthy (JInt i) = (i \<noteq> 0)"
| "truthy (JFloat f) = (\<not> float_is_zero f)"
| "truthy (JStr s) = (s \<noteq> [])"
| "truthy (JList xs) = (xs \<noteq> [])"
| "truthy (JDict d) = (d \<noteq> [])"

text \<open>
  \<open>str(v)\<close>. For a list or a dict Python prints the \<open>repr\<close> of the container, which quotes
  and escapes the strings inside by the Unicode database; that function is the parameter
  \<open>repr\<close>, and every theorem below holds for all of its values.
\<close>

fun py_str :: "(json \<Rightarrow> pystr) \<Rightarrow> json \<Rightarrow> pystr" where
  "py_str repr JNull = pys ''None''"
| "py_str repr (JBool b) = (if b then pys ''True'' else pys ''False'')"
| "py_str repr (JInt i) = str_int i"
| "py_str repr (JFloat f) = float_str f"
| "py_str repr (JStr s) = s"
| "py_str repr (JList xs) = repr (JList xs)"
| "py_str repr (JDict d) = repr (JDict d)"

text \<open>
  A value for the parameter \<open>repr\<close> in the evaluated examples below, none of which prints a
  container.
\<close>

definition repr_unused :: "json \<Rightarrow> pystr" where
  "repr_unused v = []"

text \<open>\<open>d.get(k, default)\<close>.\<close>

definition dict_get :: "(pystr \<times> json) list \<Rightarrow> pystr \<Rightarrow> json \<Rightarrow> json" where
  "dict_get d k dflt = (case map_of d k of None \<Rightarrow> dflt | Some v \<Rightarrow> v)"

subsection \<open>The normalizer\<close>

text \<open>
  A slide as the normalizer returns it and the renderer reads it: a dictionary with the keys
  \<open>title\<close>, \<open>bullets\<close> and \<open>notes\<close>. A field is \<open>None\<close> when the key is absent, which the
  renderer allows for (\<open>s.get\<close>); the normalizer always sets all three.
\<close>

record slide_dict =
  slide_title :: "pystr option"
  slide_bullets :: "pystr list option"
  slide_notes :: "pystr option"

text \<open>
  The body of the loop of \<open>validate_slide_json\<close>:
  \<^verbatim>\<open>
      title = str(s.get("title", "")).strip()
      bullets = s.get("bullets", [])
      notes = str(s.get("notes", "")).strip()
      if not isinstance(bullets, list):
          bullets = [str(bullets)] if bullets else []
      bullets = [str(b).strip() for b in bullets if str(b).strip()]
      norm.append({"title": title, "bullets": bullets, "notes": notes})
  \<close>
  \<open>s.get\<close> raises \<open>AttributeError\<close> when \<open>s\<close> is not a dict.
\<close>

definition coerce_bullets :: "(json \<Rightarrow> pystr) \<Rightarrow> json \<Rightarrow> json list" where
  "coerce_bullets repr bullets =
     (case bullets of
        JList bs \<Rightarrow> bs
      | _ \<Rightarrow> if truthy bullets then [JStr (py_str repr bullets)] else [])"

definition clean_bullets :: "(json \<Rightarrow> pystr) \<Rightarrow> json list \<Rightarrow> pystr list" where
  "clean_bullets repr bullets =
     map (\<lambda>b. strip (py_str repr b)) (filter (\<lambda>b. strip (py_str repr b) \<noteq> []) bullets)"

definition normalize_slide :: "(json \<Rightarrow> pystr) \<Rightarrow> json \<Rightarrow> py_error + slide_dict" where
  "normalize_slide repr s =
     (case s of
        JDict d \<Rightarrow>
          (let title = strip (py_str repr (dict_get d (pys ''title'') (JStr [])));
               bullets = dict_get d (pys ''bullets'') (JList []);
               notes = strip (py_str repr (dict_get d (pys ''notes'') (JStr [])));
               bullets = coerce_bullets repr bullets;
               bullets = clean_bullets repr bullets
           in Inr \<lparr>slide_title = Some title, slide_bullets = Some bullets,
                    slide_notes = Some notes\<rparr>)
      | _ \<Rightarrow> Inl (AttributeError (type_name s)))"

text \<open>The loop \<open>for s in slides\<close>, appending to \<open>norm\<close>; the first exception ends it.\<close>

fun normalize_loop ::
  "(json \<Rightarrow> pystr) \<Rightarrow> json list \<Rightarrow> slide_dict list \<Rightarrow> py_error + slide_dict list" where
  "normalize_loop repr [] norm = Inr norm"
| "normalize_loop repr (s # ss) norm =
     (case normalize_slide repr s of
        Inl e \<Rightarrow> Inl e
      | Inr r \<Rightarrow> normalize_loop repr ss (norm @ [r]))"

definition no_slides_list :: py_error where
  "no_slides_list = ValueError ''LLM did not return a 'slides' list''"

definition slides_not_nonempty_list :: py_error where
  "slides_not_nonempty_list = ValueError '''slides' must be a non-empty list''"

definition validate_slide_json :: "(json \<Rightarrow> pystr) \<Rightarrow> json \<Rightarrow> py_error + slide_dict list" where
  "validate_slide_json repr data =
     (case data of
        JDict d \<Rightarrow>
          (case map_of d (pys ''slides'') of
             None \<Rightarrow> Inl no_slides_list
           | Some slides \<Rightarrow>
               (case slides of
                  JList ss \<Rightarrow>
                    if ss = [] then Inl slides_not_nonempty_list
                    else normalize_loop repr ss []
                | _ \<Rightarrow> Inl slides_not_nonempty_list))
      | _ \<Rightarrow> Inl no_slides_list)"

subsection \<open>The repair pass of \<open>build_deck\<close>\<close>

text \<open>
  \<^verbatim>\<open>
      try:
          slides = validate_slide_json(raw)
      except Exception as e:
          repaired = {"slides": []}
          if isinstance(raw, list):
              for item in raw:
                  if isinstance(item, dict):
                      repaired["slides"].append(item)
          elif isinstance(raw, dict) and "Slides" in raw:
              repaired["slides"] = raw.get("Slides", [])
          else:
              raise
          slides = validate_slide_json(repaired)
  \<close>
  \<open>repair\<close> is the handler up to its last line: the reshaped candidate, or \<open>None\<close> where the
  handler re-raises the exception it caught.
\<close>

definition repair :: "json \<Rightarrow> json option" where
  "repair raw =
     (case raw of
        JList items \<Rightarrow> Some (JDict [(pys ''slides'', JList (filter is_dict items))])
      | JDict d \<Rightarrow>
          (if map_of d (pys ''Slides'') \<noteq> None
           then Some (JDict [(pys ''slides'', dict_get d (pys ''Slides'') (JList []))])
           else None)
      | _ \<Rightarrow> None)"

text \<open>
  The whole \<open>try\<close> statement. Besides the slides or the exception that leaves the statement,
  the result records the arguments \<open>validate_slide_json\<close> was called with, in order.
\<close>

record normalize_run =
  validate_calls :: "json list"
  slides_or_error :: "py_error + slide_dict list"

definition normalize_or_repair :: "(json \<Rightarrow> pystr) \<Rightarrow> json \<Rightarrow> normalize_run" where
  "normalize_or_repair repr raw =
     (case validate_slide_json repr raw of
        Inr slides \<Rightarrow> \<lparr>validate_calls = [raw], slides_or_error = Inr slides\<rparr>
      | Inl e \<Rightarrow>
          (case repair raw of
             None \<Rightarrow> \<lparr>validate_calls = [raw], slides_or_error = Inl e\<rparr>
           | Some repaired \<Rightarrow>
               \<lparr>validate_calls = [raw, repaired],
                slides_or_error = validate_slide_json repr repaired\<rparr>))"

subsection \<open>The content request and its retry decorator\<close>

text \<open>
  What one call of \<open>client.chat.completions.create\<close> does: it raises, or it returns a
  response whose \<open>choices[0].message.content\<close> is \<open>None\<close> or a string.
\<close>

datatype api_reply = Raises py_error | Content "pystr option"

text \<open>
  Everything outside the program that \<open>call_openai_json\<close> reads: whether the \<open>openai\<close>
  package was imported, the environment variable \<open>OPENAI_API_KEY\<close>, the generation service
  (its reply to the model name and the prompt at the n-th attempt) and \<open>json.loads\<close>.
\<close>

record openai_world =
  OpenAI_installed :: bool
  OPENAI_API_KEY :: "pystr option"
  chat_create :: "pystr \<Rightarrow> pystr \<Rightarrow> nat \<Rightarrow> api_reply"
  json_loads :: "pystr \<Rightarrow> py_error + json"

text \<open>
  The body of \<open>call_openai_json\<close>, one attempt:
  \<^verbatim>\<open>
      if OpenAI is None:
          raise RuntimeError("openai package not installed.")
      api_key = os.getenv("OPENAI_API_KEY")
      if not api_key:
          raise RuntimeError("OPENAI_API_KEY environment variable not set.")
      client = OpenAI()
      resp = client.chat.completions.create(model=model, ...)
      content = resp.choices[0].message.content
      if not content:
          raise RuntimeError("Empty response from LLM")
      return json.loads(content)
  \<close>
\<close>

definition key_not_set :: py_error where
  "key_not_set = RuntimeError ''OPENAI_API_KEY environment variable not set.''"

definition empty_response :: py_error where
  "empty_response = RuntimeError ''Empty response from LLM''"

definition call_openai_json_attempt ::
  "openai_world \<Rightarrow> pystr \<Rightarrow> pystr \<Rightarrow> nat \<Rightarrow> py_error + json" where
  "call_openai_json_attempt w prompt model n =
     (if \<not> OpenAI_installed w then Inl (RuntimeError ''openai package not installed.'')
      else if OPENAI_API_KEY w = None \<or> OPENAI_API_KEY w = Some [] then Inl key_not_set
      else
        (case chat_create w model prompt n of
           Raises e \<Rightarrow> Inl e
         | Content None \<Rightarrow> Inl empty_response
         | Content (Some content) \<Rightarrow>
             if content = [] then Inl empty_response else json_loads w content))"

text \<open>
  \<open>tenacity.wait_exponential(multiplier, min, max)\<close>: the wait after the attempt with the
  given number is \<open>multiplier * 2 ** (attempt_number - 1)\<close>, kept between \<open>min\<close> and \<open>max\<close>.
\<close>

definition wait_exponential :: "nat \<Rightarrow> nat \<Rightarrow> nat \<Rightarrow> nat \<Rightarrow> nat" where
  "wait_exponential multiplier wmin wmax attempt_number =
     max (max 0 wmin) (min (multiplier * 2 ^ (attempt_number - 1)) wmax)"

text \<open>
  What a decorated call leaves behind: the number of attempts made, the sleeps between them
  in order, and the value returned or the exception raised.
\<close>

record 'a retry_run =
  attempts :: nat
  sleeps :: "nat list"
  outcome :: "py_error + 'a"

text \<open>
  \<open>tenacity.retry(wait=..., stop=stop_after_attempt(k))\<close> with no \<open>retry=\<close> argument: the
  decorator calls the function; when the call raises an exception, whatever it is, and
  fewer than \<open>k\<close> attempts were made, it sleeps and calls again; after the \<open>k\<close>-th failed
  attempt it raises \<open>RetryError\<close>. \<open>attempt_number\<close> starts at 1.
\<close>

function retry :: "nat \<Rightarrow> (nat \<Rightarrow> nat) \<Rightarrow> (nat \<Rightarrow> py_error + 'a) \<Rightarrow> nat \<Rightarrow> nat list \<Rightarrow> 'a retry_run"
  where
  "retry stop_after_attempt wait fn attempt_number slept =
     (if isl (fn attempt_number)
      then
        (if stop_after_attempt \<le> attempt_number
         then \<lparr>attempts = attempt_number, sleeps = slept,
               outcome = Inl (RetryError (projl (fn attempt_number)))\<rparr>
         else retry stop_after_attempt wait fn (attempt_number + 1)
                (slept @ [wait attempt_number]))
      else \<lparr>attempts = attempt_number, sleeps = slept, outcome = fn attempt_number\<rparr>)"
  by pat_completeness auto
termination
  by (relation "measure (\<lambda>(k, w, f, n, s). k - n)") auto

declare retry.simps [simp del]

text \<open>
  \<^verbatim>\<open>
  @retry(wait=wait_exponential(multiplier=1, min=1, max=8), stop=stop_after_attempt(3))
  def call_openai_json(prompt, model): ...
  \<close>
\<close>

definition call_openai_json :: "openai_world \<Rightarrow> pystr \<Rightarrow> pystr \<Rightarrow> json retry_run" where
  "call_openai_json w prompt model =
     retry 3 (wait_exponential 1 1 8) (call_openai_json_attempt w prompt model) 1 []"

text \<open>
  A world for the evaluated examples below: the package is installed, the environment
  variable is not set, the service would return no content and no text would parse.
\<close>

definition world_without_key :: openai_world where
  "world_without_key =
     \<lparr>OpenAI_installed = True, OPENAI_API_KEY = None,
      chat_create = (\<lambda>model prompt n. Content None),
      json_loads = (\<lambda>content. Inl JSONDecodeError)\<rparr>"

subsection \<open>The renderer\<close>

text \<open>
  The document as the program's calls to \<open>python-pptx\<close> leave it. A paragraph has its text
  and the font settings made on its runs; a slide has its layout, its title paragraph, the
  paragraphs of the body placeholder, the text boxes and rectangles added to it, its
  background fill and its notes.
\<close>

type_synonym rgb = "nat \<times> nat \<times> nat"

record paragraph_obj =
  p_text :: pystr
  p_centered :: bool
  font_size :: "nat option"
  font_bold :: bool
  font_italic :: bool
  font_underline :: bool
  font_color :: "rgb option"

definition new_paragraph :: paragraph_obj where
  "new_paragraph =
     \<lparr>p_text = [], p_centered = False, font_size = None, font_bold = False,
      font_italic = False, font_underline = False, font_color = None\<rparr>"

record slide_obj =
  layout :: nat
  title_shape :: paragraph_obj
  body :: "paragraph_obj list"
  textboxes :: "paragraph_obj list"
  rectangles :: "rgb list"
  background :: "rgb option"
  notes_text :: "pystr option"

text \<open>\<open>prs.slides.add_slide(prs.slide_layouts[l])\<close>: the new slide, before it is appended.\<close>

definition add_slide :: "nat \<Rightarrow> slide_obj" where
  "add_slide l =
     \<lparr>layout = l, title_shape = new_paragraph, body = [new_paragraph], textboxes = [],
      rectangles = [], background = None, notes_text = None\<rparr>"

definition EMOJIS :: "pystr list" where
  "EMOJIS = [[9989], [128200], [128273], [128202], [128161]]"

text \<open>
  \<open>_add_bullets(text_frame, bullets, slide_index)\<close>. The text frame is its list of
  paragraphs, which \<open>python-pptx\<close> never lets be empty. The first paragraph is cleared; the
  first bullet goes into it, each later one into a paragraph added at the end; every line
  is the slide's marker, a space and the bullet, its runs at 20 pt in gray.
\<close>

definition bullet_line :: "pystr \<Rightarrow> pystr \<Rightarrow> paragraph_obj \<Rightarrow> paragraph_obj" where
  "bullet_line emoji b p =
     p\<lparr>p_text := emoji @ pys '' '' @ b, font_size := Some 20, font_color := Some (50, 50, 50)\<rparr>"

definition on_first :: "('a \<Rightarrow> 'a) \<Rightarrow> 'a list \<Rightarrow> 'a list" where
  "on_first f ps = (case ps of [] \<Rightarrow> [] | p # rest \<Rightarrow> f p # rest)"

fun add_bullets_loop ::
  "pystr \<Rightarrow> nat \<Rightarrow> pystr list \<Rightarrow> paragraph_obj list \<Rightarrow> paragraph_obj list" where
  "add_bullets_loop emoji i [] text_frame = text_frame"
| "add_bullets_loop emoji i (b # bs) text_frame =
     add_bullets_loop emoji (Suc i) bs
       (if i = 0 then on_first (bullet_line emoji b) text_frame
        else text_frame @ [bullet_line emoji b new_paragraph])"

definition add_bullets :: "paragraph_obj list \<Rightarrow> pystr list \<Rightarrow> nat \<Rightarrow> paragraph_obj list" where
  "add_bullets text_frame bullets slide_index =
     (let emoji = EMOJIS ! (slide_index mod length EMOJIS);
          text_frame = on_first (\<lambda>p. p\<lparr>p_text := []\<rparr>) text_frame
      in add_bullets_loop emoji 0 bullets text_frame)"

definition COLOR_PALETTE :: "rgb list" where
  "COLOR_PALETTE =
     [(230, 240, 250), (245, 245, 245), (250, 240, 230), (240, 250, 240), (255, 255, 240)]"

text \<open>
  \<open>random.choice(xs)\<close> on a non-empty list, given the number the generator draws; the only
  list the program chooses from is \<open>COLOR_PALETTE\<close>.
\<close>

definition random_choice :: "nat \<Rightarrow> 'a list \<Rightarrow> 'a" where
  "random_choice r xs = xs ! (r mod length xs)"

text \<open>
  \<^verbatim>\<open>
  def set_slide_background(slide, rgb_color=None):
      fill = slide.background.fill
      fill.solid()
      if rgb_color is None:
          rgb_color = random.choice(COLOR_PALETTE)
      fill.fore_color.rgb = RGBColor(*rgb_color)
  \<close>
  The first argument is the generator's draw.
\<close>

definition set_slide_background :: "nat \<Rightarrow> slide_obj \<Rightarrow> rgb option \<Rightarrow> slide_obj" where
  "set_slide_background r slide rgb_color =
     slide\<lparr>background :=
       Some (case rgb_color of None \<Rightarrow> random_choice r COLOR_PALETTE | Some c \<Rightarrow> c)\<rparr>"

text \<open>
  Every text the program puts into the document (\<open>shape.text = t\<close>, \<open>p.text = t\<close>,
  \<open>text_frame.text = t\<close>) goes through \<open>python-pptx\<close> into an \<open>lxml\<close> element. \<open>python-pptx\<close>
  escapes the ASCII control characters itself; \<open>lxml\<close> refuses what is left of the
  characters XML does not allow: a lone surrogate (U+D800 to U+DFFF), U+FFFE and U+FFFF.
  The assignment then raises \<open>ValueError\<close> (for a surrogate its subclass
  \<open>UnicodeEncodeError\<close>; the model does not tell the two apart).
\<close>

definition xml_char :: "nat \<Rightarrow> bool" where
  "xml_char c \<longleftrightarrow> \<not> (55296 \<le> c \<and> c \<le> 57343) \<and> c \<noteq> 65534 \<and> c \<noteq> 65535"

definition xml_text :: "pystr \<Rightarrow> bool" where
  "xml_text t = list_all xml_char t"

definition xml_incompatible :: py_error where
  "xml_incompatible =
     ValueError ''All strings must be XML compatible: Unicode or ASCII, no NULL bytes or control characters''"

definition assign_text :: "pystr \<Rightarrow> py_error + pystr" where
  "assign_text t = (if xml_text t then Inr t else Inl xml_incompatible)"

text \<open>Several assignments in a row: the first that raises ends them.\<close>

fun assign_texts :: "pystr list \<Rightarrow> py_error + pystr list" where
  "assign_texts [] = Inr []"
| "assign_texts (t # ts) =
     (case assign_text t of
        Inl e \<Rightarrow> Inl e
      | Inr t \<Rightarrow> (case assign_texts ts of Inl e \<Rightarrow> Inl e | Inr ts \<Rightarrow> Inr (t # ts)))"

text \<open>\<^verbatim>\<open>bullet_text = f"{emoji} {b}"\<close>\<close>

definition bullet_text :: "pystr \<Rightarrow> pystr \<Rightarrow> pystr" where
  "bullet_text emoji b = emoji @ pys '' '' @ b"

text \<open>The title the loop of \<open>create_pptx\<close> uses: \<^verbatim>\<open>s.get("title") or f"Slide {idx+1}"\<close>.\<close>

definition title_or_placeholder :: "nat \<Rightarrow> slide_dict \<Rightarrow> pystr" where
  "title_or_placeholder idx s =
     (case slide_title s of
        None \<Rightarrow> pys ''Slide '' @ str_nat (idx + 1)
      | Some t \<Rightarrow> if t \<noteq> [] then t else pys ''Slide '' @ str_nat (idx + 1))"

text \<open>
  The branch \<open>idx == 0 and bullets == []\<close>, as it leaves the slide when its text
  assignments are accepted: title layout, the title, the dark blue background, the title
  centred at 44 pt bold, the caption in a text box, and one purple rectangle for each run
  of the caption (the caption is one run).
\<close>

definition caption :: pystr where
  "caption = pys ''Auto-Generated Deck '' @ [8226] @ pys '' Powered by AI''"

definition title_slide :: "pystr \<Rightarrow> slide_obj" where
  "title_slide t =
     (let slide = add_slide 0;
          slide = slide\<lparr>title_shape := (title_shape slide)\<lparr>p_text := t\<rparr>\<rparr>;
          slide = slide\<lparr>background := Some (25, 50, 100)\<rparr>;
          slide = slide\<lparr>title_shape := (title_shape slide)\<lparr>p_centered := True,
                    font_size := Some 44, font_bold := True, font_color := Some (0, 51, 102)\<rparr>\<rparr>;
          slide = slide\<lparr>textboxes := textboxes slide @
                    [new_paragraph\<lparr>p_text := caption, font_size := Some 20, font_italic := True,
                       font_color := Some (200, 200, 200)\<rparr>]\<rparr>;
          slide = slide\<lparr>rectangles := rectangles slide @ [(138, 43, 226)]\<rparr>
      in slide)"

text \<open>
  The other branch, as it leaves the slide when its text assignments are accepted: content
  layout, the title at 30 pt bold navy and underlined, and the body filled by
  \<open>_add_bullets\<close>, or set to the empty text when there are no bullets.
\<close>

definition content_slide :: "nat \<Rightarrow> pystr \<Rightarrow> pystr list \<Rightarrow> slide_obj" where
  "content_slide idx t bullets =
     (let slide = add_slide 1;
          slide = slide\<lparr>title_shape := (title_shape slide)\<lparr>p_text := t\<rparr>\<rparr>;
          slide = slide\<lparr>title_shape := (title_shape slide)\<lparr>font_size := Some 30,
                    font_bold := True, font_color := Some (0, 51, 102)\<rparr>\<rparr>;
          slide = slide\<lparr>title_shape := (title_shape slide)\<lparr>font_underline := True\<rparr>\<rparr>;
          slide = slide\<lparr>body :=
                    (if bullets \<noteq> [] then add_bullets (body slide) bullets idx
                     else [new_paragraph])\<rparr>
      in slide)"

text \<open>
  One iteration of the loop \<open>for idx, s in enumerate(slides)\<close>, given the generator's draw
  for it: the branch, then \<open>set_slide_background(slide)\<close> on every slide, then the notes.
  Each assignment of a text raises where \<open>assign_text\<close> does, in the order of the source:
  the title, then the caption (title branch) or the bullet lines (\<open>p.text = bullet_text\<close>
  and \<open>run.text = bullet_text\<close> in \<open>_add_bullets\<close>), and last the notes. An exception leaves
  the loop and \<open>create_pptx\<close>; the slide under construction is lost with the document.
\<close>

definition attach_notes :: "pystr \<Rightarrow> slide_obj \<Rightarrow> py_error + slide_obj" where
  "attach_notes notes slide =
     (if notes \<noteq> [] then
        (case assign_text notes of
           Inl e \<Rightarrow> Inl e
         | Inr n \<Rightarrow> Inr (slide\<lparr>notes_text := Some n\<rparr>))
      else Inr slide)"

definition render_slide :: "nat \<Rightarrow> nat \<Rightarrow> slide_dict \<Rightarrow> py_error + slide_obj" where
  "render_slide r idx s =
     (let t = title_or_placeholder idx s;
          bullets = (case slide_bullets s of None \<Rightarrow> [] | Some bs \<Rightarrow> bs);
          notes = (case slide_notes s of None \<Rightarrow> [] | Some n \<Rightarrow> n)
      in
        if idx = 0 \<and> bullets = [] then
          (case assign_text t of
             Inl e \<Rightarrow> Inl e
           | Inr t \<Rightarrow>
               (case assign_text caption of
                  Inl e \<Rightarrow> Inl e
                | Inr c \<Rightarrow> attach_notes notes (set_slide_background r (title_slide t) None)))
        else
          (case assign_text t of
             Inl e \<Rightarrow> Inl e
           | Inr t \<Rightarrow>
               (case assign_texts (map (bullet_text (EMOJIS ! (idx mod length EMOJIS))) bullets) of
                  Inl e \<Rightarrow> Inl e
                | Inr lines \<Rightarrow>
                    attach_notes notes
                      (set_slide_background r (content_slide idx t bullets) None))))"

text \<open>
  The loop. \<open>prs\<close> holds the slides added so far; \<open>random.choice\<close> is called once in each
  iteration that reaches it, so the draw of iteration \<open>idx\<close> is the \<open>idx\<close>-th number of the
  generator. The first iteration that raises ends the loop.
\<close>

fun render_loop ::
  "(nat \<Rightarrow> nat) \<Rightarrow> nat \<Rightarrow> slide_dict list \<Rightarrow> slide_obj list \<Rightarrow> py_error + slide_obj list"
  where
  "render_loop rnd idx [] prs = Inr prs"
| "render_loop rnd idx (s # ss) prs =
     (case render_slide (rnd idx) idx s of
        Inl e \<Rightarrow> Inl e
      | Inr slide \<Rightarrow> render_loop rnd (Suc idx) ss (prs @ [slide]))"

text \<open>
  The name the document is saved under:
  \<^verbatim>\<open>
      safe_out = sanitize_filename(outfile or "deck.pptx")
      if not safe_out.lower().endswith(".pptx"):
          safe_out += ".pptx"
  \<close>
\<close>

definition output_name :: "pystr \<Rightarrow> pystr" where
  "output_name outfile =
     (let safe_out = sanitize_filename (if outfile \<noteq> [] then outfile else pys ''deck.pptx'')
      in if \<not> endswith (lower safe_out) (pys ''.pptx'') then safe_out @ pys ''.pptx''
         else safe_out)"

text \<open>
  \<open>create_pptx\<close>. The first argument says whether \<open>python-pptx\<close> was imported. The result is
  the document handed to \<open>prs.save\<close> and the path it is saved under, which is also the
  value returned; when the loop raises, nothing is saved and no path is returned.
\<close>

definition create_pptx ::
  "bool \<Rightarrow> (nat \<Rightarrow> nat) \<Rightarrow> slide_dict list \<Rightarrow> pystr \<Rightarrow> py_error + (slide_obj list \<times> pystr)" where
  "create_pptx Presentation rnd slides outfile =
     (if \<not> Presentation then Inl (RuntimeError ''python-pptx is not installed.'')
      else
        (case render_loop rnd 0 slides [] of
           Inl e \<Rightarrow> Inl e
         | Inr prs \<Rightarrow> Inr (prs, output_name outfile)))"

text \<open>
  The decks \<open>create_pptx\<close> can render: every title, bullet and notes string of the record
  is XML-compatible text.
\<close>

definition slide_xml_ok :: "slide_dict \<Rightarrow> bool" where
  "slide_xml_ok s \<longleftrightarrow>
     (case slide_title s of None \<Rightarrow> True | Some t \<Rightarrow> xml_text t) \<and>
     (case slide_bullets s of None \<Rightarrow> True | Some bs \<Rightarrow> list_all xml_text bs) \<and>
     (case slide_notes s of None \<Rightarrow> True | Some n \<Rightarrow> xml_text n)"

section \<open>Properties\<close>

subsection \<open>Strings\<close>

lemmas string_eval =
  pys_def strip_def isspace_def replace_space_underscore_def filename_char_def
  sanitize_filename_def lower_def endswith_def

lemma last_dropWhile: "dropWhile P xs \<noteq> [] \<Longrightarrow> last (dropWhile P xs) = last xs"
  by (induction xs) (auto split: if_splits)

text \<open>A stripped string neither begins nor ends with white space.\<close>

lemma strip_edges:
  assumes "strip s \<noteq> []"
  shows "\<not> isspace (hd (strip s))" and "\<not> isspace (last (strip s))"
proof -
  let ?a = "dropWhile isspace s"
  let ?b = "dropWhile isspace (rev ?a)"
  have b: "?b \<noteq> []" using assms by (simp add: strip_def)
  have "?a = [] \<Longrightarrow> ?b = []" by (simp only: rev.simps dropWhile.simps)
  with b have a: "?a \<noteq> []" by blast
  have "\<not> isspace (hd ?b)" using b by (rule hd_dropWhile)
  then show "\<not> isspace (last (strip s))" using b by (simp add: strip_def last_rev)
  have "last ?b = last (rev ?a)" using b by (rule last_dropWhile)
  also have "\<dots> = hd ?a" using a by (simp add: last_rev)
  finally have "hd (strip s) = hd ?a" using b by (simp add: strip_def hd_rev)
  moreover have "\<not> isspace (hd ?a)" using a by (rule hd_dropWhile)
  ultimately show "\<not> isspace (hd (strip s))" by simp
qed

text \<open>Conversely, \<open>strip\<close> leaves such a string as it is.\<close>

lemma strip_fixed:
  assumes "s = [] \<or> (\<not> isspace (hd s) \<and> \<not> isspace (last s))"
  shows "strip s = s"
proof (cases "s = []")
  case True
  then show ?thesis by (simp add: strip_def)
next
  case False
  with assms have h: "\<not> isspace (hd s)" and l: "\<not> isspace (last s)" by auto
  from False h have 1: "dropWhile isspace s = s" by (cases s) auto
  from False l have "\<not> isspace (hd (rev s))" by (simp add: hd_rev)
  with False have 2: "dropWhile isspace (rev s) = rev s" by (cases "rev s") auto
  show ?thesis by (simp add: strip_def 1 2)
qed

lemma strip_strip: "strip (strip s) = strip s"
  by (rule strip_fixed) (use strip_edges [of s] in blast)

lemma filename_char_not_space: "filename_char c \<Longrightarrow> \<not> isspace c \<and> c \<noteq> 32"
  by (auto simp: filename_char_def isspace_def)

lemma sanitize_filename_chars: "\<forall>c\<in>set (sanitize_filename s). filename_char c"
  by (simp add: sanitize_filename_def)

lemma sanitize_filename_fixed:
  assumes "\<forall>c\<in>set s. filename_char c"
  shows "sanitize_filename s = s"
proof -
  have ns: "\<forall>c\<in>set s. \<not> isspace c" and n32: "\<forall>c\<in>set s. c \<noteq> 32"
    using assms filename_char_not_space by blast+
  have "s = [] \<or> (\<not> isspace (hd s) \<and> \<not> isspace (last s))"
    using ns by (cases "s = []") auto
  then have 1: "strip s = s" by (rule strip_fixed)
  have 2: "replace_space_underscore s = s"
    using n32 by (simp add: replace_space_underscore_def map_idI)
  have 3: "filter filename_char s = s" using assms by simp
  show ?thesis by (simp add: sanitize_filename_def 1 2 3)
qed

lemma endswith_append: "endswith (s @ t) t"
  by (simp add: endswith_def)




subsection \<open>File names\<close>

text \<open>
  Claim C9. \<open>sanitize_filename\<close> is idempotent: sanitizing its own output changes nothing,
  because the output holds no space, has no white space at either end (\<open>strip\<close> leaves it
  as it is) and consists of the characters \<open>A-Za-z0-9_.-\<close> only.
\<close>

theorem sanitize_filename_idempotent:
  "sanitize_filename (sanitize_filename s) = sanitize_filename s \<and>
   32 \<notin> set (sanitize_filename s) \<and>
   strip (sanitize_filename s) = sanitize_filename s \<and>
   list_all filename_char (sanitize_filename s)"
proof -
  let ?o = "sanitize_filename s"
  have ch: "\<forall>c\<in>set ?o. filename_char c" by (rule sanitize_filename_chars)
  then have idem: "sanitize_filename ?o = ?o" by (rule sanitize_filename_fixed)
  have n32: "32 \<notin> set ?o" using ch filename_char_not_space by blast
  have ns: "\<forall>c\<in>set ?o. \<not> isspace c" using ch filename_char_not_space by blast
  have "?o = [] \<or> (\<not> isspace (hd ?o) \<and> \<not> isspace (last ?o))"
    using ns by (cases "?o = []") auto
  then have st: "strip ?o = ?o" by (rule strip_fixed)
  have la: "list_all filename_char ?o" using ch by (simp add: list_all_iff)
  show ?thesis using idem n32 st la by blast
qed

theorem sanitize_filename_idempotent_witness:
  "sanitize_filename (sanitize_filename (pys '' a b/c.txt '')) = pys ''a_bc.txt''"
  using sanitize_filename_idempotent [of "pys '' a b/c.txt ''"]
  by (simp add: string_eval)

subsection \<open>The search context\<close>

lemma clamp_long:
  assumes "6000 < length t"
  shows "length (clamp t 6000) = 6000" and "endswith (clamp t 6000) (pys ''...'')"
proof -
  have c: "clamp t 6000 = take 5997 t @ pys ''...''"
    using assms by (simp add: clamp_def slice_to_def)
  have l: "length (pys ''...'') = 3" by (simp add: pys_def)
  show "length (clamp t 6000) = 6000" using assms by (simp add: c l)
  show "endswith (clamp t 6000) (pys ''...'')" by (simp add: c endswith_append)
qed

lemma clamp_short: "length t \<le> 6000 \<Longrightarrow> clamp t 6000 = t"
  by (simp add: clamp_def)

lemma str_nat_digit: "n < 10 \<Longrightarrow> str_nat n = [48 + n]"
  by (simp add: str_nat.simps [of n])

lemma collect_one:
  "collect_results [[(pys ''title'', replicate n 97)]] =
     (if n = 0 then [] else [\<lparr>title = replicate n 97, snippet = [], url = []\<rparr>])"
  by (simp add: collect_results_def List.map_filter_def hit_result_def hit_get_def
      strip_def isspace_def pys_def Let_def)

lemma joined_one:
  "length (joined_context [\<lparr>title = t, snippet = [], url = []\<rparr>]) = length t + 21"
  by (simp add: joined_context_def chunk_def pys_def str_nat_digit)

text \<open>
  Claim C7. When the search service answers, \<open>get_web_results\<close> returns the collected
  results and a context string: where the numbered blocks joined by newlines are longer
  than 6000 characters, the context is at most 6000 characters long and ends with the
  ellipsis \<open>"..."\<close>; where they are at most 6000 characters long, the context is the joined
  text unchanged.
\<close>

theorem get_web_results_context:
  assumes "ddgs_text query max_results = Inr hits"
  shows "\<exists>results context.
     get_web_results (Some ddgs_text) query max_results = Inr (results, context) \<and>
     results = collect_results hits \<and>
     (6000 < length (joined_context results) \<longrightarrow>
        length context \<le> 6000 \<and> endswith context (pys ''...'')) \<and>
     (length (joined_context results) \<le> 6000 \<longrightarrow> context = joined_context results)"
proof -
  let ?rs = "collect_results hits"
  let ?c = "clamp (joined_context ?rs) 6000"
  have run: "get_web_results (Some ddgs_text) query max_results = Inr (?rs, ?c)"
    using assms by (simp add: get_web_results_def Let_def)
  have long: "6000 < length (joined_context ?rs) \<longrightarrow>
      length ?c \<le> 6000 \<and> endswith ?c (pys ''...'')"
    using clamp_long [of "joined_context ?rs"] by simp
  have short: "length (joined_context ?rs) \<le> 6000 \<longrightarrow> ?c = joined_context ?rs"
    using clamp_short by blast
  show ?thesis using run long short by blast
qed

theorem get_web_results_context_witness:
  "(\<exists>results context.
      get_web_results (Some (\<lambda>q n. Inr [[(pys ''title'', replicate 6000 97)]])) (pys ''ai'') 8
        = Inr (results, context) \<and>
      6000 < length (joined_context results) \<and> length context \<le> 6000 \<and>
      endswith context (pys ''...'')) \<and>
   (\<exists>results context.
      get_web_results (Some (\<lambda>q n. Inr [[(pys ''title'', pys ''a'')]])) (pys ''ai'') 8
        = Inr (results, context) \<and>
      length (joined_context results) \<le> 6000 \<and> context = joined_context results)"
proof -
  have big: "6000 < length (joined_context (collect_results [[(pys ''title'', replicate 6000 97)]]))"
    by (simp add: collect_one joined_one)
  have small: "length (joined_context (collect_results [[(pys ''title'', pys ''a'')]])) \<le> 6000"
    by (simp add: collect_results_def List.map_filter_def hit_result_def hit_get_def
        strip_def isspace_def pys_def Let_def joined_context_def chunk_def str_nat_digit)
  show ?thesis
    using get_web_results_context
      [of "\<lambda>q n. Inr [[(pys ''title'', replicate 6000 97)]]" "pys ''ai''" 8
        "[[(pys ''title'', replicate 6000 97)]]"]
      get_web_results_context
      [of "\<lambda>q n. Inr [[(pys ''title'', pys ''a'')]]" "pys ''ai''" 8
        "[[(pys ''title'', pys ''a'')]]"]
      big small
    by blast
qed

subsection \<open>The normalizer\<close>

lemma normalize_slide_dict:
  "normalize_slide repr (JDict f) =
     Inr \<lparr>slide_title = Some (strip (py_str repr (dict_get f (pys ''title'') (JStr [])))),
          slide_bullets = Some (clean_bullets repr
             (coerce_bullets repr (dict_get f (pys ''bullets'') (JList [])))),
          slide_notes = Some (strip (py_str repr (dict_get f (pys ''notes'') (JStr []))))\<rparr>"
  by (simp add: normalize_slide_def Let_def)

lemma normalize_loop_dicts:
  "\<forall>s\<in>set ss. is_dict s \<Longrightarrow>
   normalize_loop repr ss norm = Inr (norm @ map (\<lambda>s. projr (normalize_slide repr s)) ss)"
proof (induction ss arbitrary: norm)
  case Nil
  then show ?case by simp
next
  case (Cons s ss)
  then obtain f where f: "s = JDict f" by (cases s) auto
  show ?case using Cons by (simp add: f normalize_slide_dict)
qed

lemma clean_bullets_trimmed:
  "b \<in> set (clean_bullets repr bl) \<Longrightarrow> b \<noteq> [] \<and> strip b = b"
  by (auto simp: clean_bullets_def strip_strip)

text \<open>The first slide that is not a dict ends the loop with its \<open>AttributeError\<close>.\<close>

lemma normalize_slide_not_dict:
  "\<not> is_dict s \<Longrightarrow> normalize_slide repr s = Inl (AttributeError (type_name s))"
  by (cases s) (simp_all add: normalize_slide_def)

lemma validate_slide_json_dicts:
  assumes "map_of d (pys ''slides'') = Some (JList ss)" and "ss \<noteq> []"
    and "\<forall>s\<in>set ss. is_dict s"
  shows "\<exists>norm. validate_slide_json repr (JDict d) = Inr norm \<and> length norm = length ss \<and>
    (\<forall>i<length ss. \<forall>f. ss ! i = JDict f \<longrightarrow>
       (\<exists>t bs n. norm ! i = \<lparr>slide_title = Some t, slide_bullets = Some bs, slide_notes = Some n\<rparr> \<and>
          t = strip (py_str repr (dict_get f (pys ''title'') (JStr []))) \<and>
          n = strip (py_str repr (dict_get f (pys ''notes'') (JStr []))) \<and>
          strip t = t \<and> strip n = n \<and>
          (map_of f (pys ''title'') = None \<longrightarrow> t = []) \<and>
          (map_of f (pys ''notes'') = None \<longrightarrow> n = []) \<and>
          (\<forall>b\<in>set bs. b \<noteq> [] \<and> strip b = b) \<and>
          (map_of f (pys ''bullets'') = None \<longrightarrow> bs = []) \<and>
          (\<forall>bl. map_of f (pys ''bullets'') = Some (JList bl) \<longrightarrow>
             bs = map (\<lambda>b. strip (py_str repr b))
                    (filter (\<lambda>b. strip (py_str repr b) \<noteq> []) bl)) \<and>
          (\<forall>v. map_of f (pys ''bullets'') = Some v \<longrightarrow> (\<forall>bl. v \<noteq> JList bl) \<longrightarrow>
             bs = (if truthy v \<and> strip (py_str repr v) \<noteq> [] then [strip (py_str repr v)]
                   else []))))"
proof -
  let ?norm = "map (\<lambda>s. projr (normalize_slide repr s)) ss"
  have run: "validate_slide_json repr (JDict d) = Inr ?norm"
    using assms by (simp add: validate_slide_json_def normalize_loop_dicts)
  have each: "\<exists>t bs n. ?norm ! i = \<lparr>slide_title = Some t, slide_bullets = Some bs, slide_notes = Some n\<rparr> \<and>
          t = strip (py_str repr (dict_get f (pys ''title'') (JStr []))) \<and>
          n = strip (py_str repr (dict_get f (pys ''notes'') (JStr []))) \<and>
          strip t = t \<and> strip n = n \<and>
          (map_of f (pys ''title'') = None \<longrightarrow> t = []) \<and>
          (map_of f (pys ''notes'') = None \<longrightarrow> n = []) \<and>
          (\<forall>b\<in>set bs. b \<noteq> [] \<and> strip b = b) \<and>
          (map_of f (pys ''bullets'') = None \<longrightarrow> bs = []) \<and>
          (\<forall>bl. map_of f (pys ''bullets'') = Some (JList bl) \<longrightarrow>
             bs = map (\<lambda>b. strip (py_str repr b))
                    (filter (\<lambda>b. strip (py_str repr b) \<noteq> []) bl)) \<and>
          (\<forall>v. map_of f (pys ''bullets'') = Some v \<longrightarrow> (\<forall>bl. v \<noteq> JList bl) \<longrightarrow>
             bs = (if truthy v \<and> strip (py_str repr v) \<noteq> [] then [strip (py_str repr v)]
                   else []))"
    if i: "i < length ss" and f: "ss ! i = JDict f" for i f
  proof -
    let ?t = "strip (py_str repr (dict_get f (pys ''title'') (JStr [])))"
    let ?n = "strip (py_str repr (dict_get f (pys ''notes'') (JStr [])))"
    let ?bs = "clean_bullets repr (coerce_bullets repr (dict_get f (pys ''bullets'') (JList [])))"
    have rec: "?norm ! i = \<lparr>slide_title = Some ?t, slide_bullets = Some ?bs, slide_notes = Some ?n\<rparr>"
      using i f by (simp add: normalize_slide_dict)
    have tt: "strip ?t = ?t" and nn: "strip ?n = ?n" by (rule strip_strip)+
    have t0: "map_of f (pys ''title'') = None \<longrightarrow> ?t = []"
      by (simp add: dict_get_def strip_def)
    have n0: "map_of f (pys ''notes'') = None \<longrightarrow> ?n = []"
      by (simp add: dict_get_def strip_def)
    have bt: "\<forall>b\<in>set ?bs. b \<noteq> [] \<and> strip b = b"
      using clean_bullets_trimmed by blast
    have b0: "map_of f (pys ''bullets'') = None \<longrightarrow> ?bs = []"
      by (simp add: dict_get_def coerce_bullets_def clean_bullets_def)
    have bl: "\<forall>bl. map_of f (pys ''bullets'') = Some (JList bl) \<longrightarrow>
             ?bs = map (\<lambda>b. strip (py_str repr b))
                    (filter (\<lambda>b. strip (py_str repr b) \<noteq> []) bl)"
      by (simp add: dict_get_def coerce_bullets_def clean_bullets_def)
    have bv: "\<forall>v. map_of f (pys ''bullets'') = Some v \<longrightarrow> (\<forall>bl. v \<noteq> JList bl) \<longrightarrow>
             ?bs = (if truthy v \<and> strip (py_str repr v) \<noteq> [] then [strip (py_str repr v)]
                   else [])"
    proof (intro allI impI)
      fix v assume v: "map_of f (pys ''bullets'') = Some v" and nl: "\<forall>bl. v \<noteq> JList bl"
      have "coerce_bullets repr v = (if truthy v then [JStr (py_str repr v)] else [])"
        using nl by (cases v) (simp_all add: coerce_bullets_def)
      then show "?bs = (if truthy v \<and> strip (py_str repr v) \<noteq> [] then [strip (py_str repr v)]
                   else [])"
        using v by (simp add: dict_get_def clean_bullets_def)
    qed
    show ?thesis
      by (rule exI [of _ ?t], rule exI [of _ ?bs], rule exI [of _ ?n])
        (intro conjI rec tt nn t0 n0 bt b0 bl bv refl)
  qed
  show ?thesis
    apply (rule exI [of _ ?norm])
    using run each by simp
qed


lemmas json_eval =
  validate_slide_json_def normalize_slide_def dict_get_def coerce_bullets_def
  clean_bullets_def Let_def pys_def strip_def isspace_def

text \<open>
  Claim C6. The example of the specification normalizes to one record with the bullets
  \<open>["a", "b"]\<close>. And for every mapping whose \<open>slides\<close> is a non-empty list of mappings,
  \<open>validate_slide_json\<close> returns one record for each element, in which: the title and the
  notes are the stripped \<open>str()\<close> of the element's values, hence trimmed, and empty when the
  key is missing; every bullet is non-empty and trimmed; a missing \<open>bullets\<close> gives no
  bullets; a list gives the stripped \<open>str()\<close> of its elements, without those that strip to
  the empty string; and a value that is not a list is wrapped as the one bullet \<open>str(v)\<close>
  when it is truthy (one that strips to the empty string is then dropped like any other)
  and gives no bullets when it is falsy.
\<close>

theorem validate_slide_json_coerces:
  "validate_slide_json repr
     (JDict [(pys ''slides'', JList [JDict [(pys ''title'', JStr (pys ''T'')),
        (pys ''bullets'', JList [JStr (pys ''a''), JStr (pys '' b '')]),
        (pys ''notes'', JStr [])]])]) =
     Inr [\<lparr>slide_title = Some (pys ''T''), slide_bullets = Some [pys ''a'', pys ''b''],
           slide_notes = Some []\<rparr>] \<and>
   (map_of d (pys ''slides'') = Some (JList ss) \<and> ss \<noteq> [] \<and> (\<forall>s\<in>set ss. is_dict s) \<longrightarrow>
    (\<exists>norm. validate_slide_json repr (JDict d) = Inr norm \<and> length norm = length ss \<and>
    (\<forall>i<length ss. \<forall>f. ss ! i = JDict f \<longrightarrow>
       (\<exists>t bs n. norm ! i = \<lparr>slide_title = Some t, slide_bullets = Some bs, slide_notes = Some n\<rparr> \<and>
          t = strip (py_str repr (dict_get f (pys ''title'') (JStr []))) \<and>
          n = strip (py_str repr (dict_get f (pys ''notes'') (JStr []))) \<and>
          strip t = t \<and> strip n = n \<and>
          (map_of f (pys ''title'') = None \<longrightarrow> t = []) \<and>
          (map_of f (pys ''notes'') = None \<longrightarrow> n = []) \<and>
          (\<forall>b\<in>set bs. b \<noteq> [] \<and> strip b = b) \<and>
          (map_of f (pys ''bullets'') = None \<longrightarrow> bs = []) \<and>
          (\<forall>bl. map_of f (pys ''bullets'') = Some (JList bl) \<longrightarrow>
             bs = map (\<lambda>b. strip (py_str repr b))
                    (filter (\<lambda>b. strip (py_str repr b) \<noteq> []) bl)) \<and>
          (\<forall>v. map_of f (pys ''bullets'') = Some v \<longrightarrow> (\<forall>bl. v \<noteq> JList bl) \<longrightarrow>
             bs = (if truthy v \<and> strip (py_str repr v) \<noteq> [] then [strip (py_str repr v)]
                   else []))))))"
proof (intro conjI impI)
  show "validate_slide_json repr
     (JDict [(pys ''slides'', JList [JDict [(pys ''title'', JStr (pys ''T'')),
        (pys ''bullets'', JList [JStr (pys ''a''), JStr (pys '' b '')]),
        (pys ''notes'', JStr [])]])]) =
     Inr [\<lparr>slide_title = Some (pys ''T''), slide_bullets = Some [pys ''a'', pys ''b''],
           slide_notes = Some []\<rparr>]"
    by (simp add: json_eval)
next
  assume "map_of d (pys ''slides'') = Some (JList ss) \<and> ss \<noteq> [] \<and> (\<forall>s\<in>set ss. is_dict s)"
  then show "\<exists>norm. validate_slide_json repr (JDict d) = Inr norm \<and> length norm = length ss \<and>
    (\<forall>i<length ss. \<forall>f. ss ! i = JDict f \<longrightarrow>
       (\<exists>t bs n. norm ! i = \<lparr>slide_title = Some t, slide_bullets = Some bs, slide_notes = Some n\<rparr> \<and>
          t = strip (py_str repr (dict_get f (pys ''title'') (JStr []))) \<and>
          n = strip (py_str repr (dict_get f (pys ''notes'') (JStr []))) \<and>
          strip t = t \<and> strip n = n \<and>
          (map_of f (pys ''title'') = None \<longrightarrow> t = []) \<and>
          (map_of f (pys ''notes'') = None \<longrightarrow> n = []) \<and>
          (\<forall>b\<in>set bs. b \<noteq> [] \<and> strip b = b) \<and>
          (map_of f (pys ''bullets'') = None \<longrightarrow> bs = []) \<and>
          (\<forall>bl. map_of f (pys ''bullets'') = Some (JList bl) \<longrightarrow>
             bs = map (\<lambda>b. strip (py_str repr b))
                    (filter (\<lambda>b. strip (py_str repr b) \<noteq> []) bl)) \<and>
          (\<forall>v. map_of f (pys ''bullets'') = Some v \<longrightarrow> (\<forall>bl. v \<noteq> JList bl) \<longrightarrow>
             bs = (if truthy v \<and> strip (py_str repr v) \<noteq> [] then [strip (py_str repr v)]
                   else []))))"
    using validate_slide_json_dicts [of d ss repr] by blast
qed

theorem validate_slide_json_coerces_witness:
  "\<exists>norm. validate_slide_json (\<lambda>v. [])
      (JDict [(pys ''slides'', JList [JDict [(pys ''bullets'', JStr (pys '' x ''))]])]) = Inr norm \<and>
     length norm = 1 \<and>
     norm ! 0 = \<lparr>slide_title = Some [], slide_bullets = Some [pys ''x''], slide_notes = Some []\<rparr>"
proof -
  let ?f = "[(pys ''bullets'', JStr (pys '' x ''))]"
  let ?d = "[(pys ''slides'', JList [JDict ?f])]"
  have h: "map_of ?d (pys ''slides'') = Some (JList [JDict ?f]) \<and> [JDict ?f] \<noteq> [] \<and>
      (\<forall>s\<in>set [JDict ?f]. is_dict s)"
    by simp
  obtain norm where n: "validate_slide_json (\<lambda>v. []) (JDict ?d) = Inr norm"
      "length norm = length [JDict ?f]"
    using validate_slide_json_coerces [of "\<lambda>v. []" ?d "[JDict ?f]"] h by blast
  have "validate_slide_json (\<lambda>v. []) (JDict ?d) =
      Inr [\<lparr>slide_title = Some [], slide_bullets = Some [pys ''x''], slide_notes = Some []\<rparr>]"
    by (simp add: json_eval)
  with n(1) have "norm = [\<lparr>slide_title = Some [], slide_bullets = Some [pys ''x''],
      slide_notes = Some []\<rparr>]"
    by simp
  with n(1) show ?thesis by simp
qed

subsection \<open>The repair pass\<close>

lemma normalize_or_repair_failed:
  "validate_slide_json repr raw = Inl e \<Longrightarrow>
   normalize_or_repair repr raw =
     (case repair raw of
        None \<Rightarrow> \<lparr>validate_calls = [raw], slides_or_error = Inl e\<rparr>
      | Some repaired \<Rightarrow> \<lparr>validate_calls = [raw, repaired],
          slides_or_error = validate_slide_json repr repaired\<rparr>)"
  by (simp add: normalize_or_repair_def)

lemma repair_list: "repair (JList items) = Some (JDict [(pys ''slides'', JList (filter is_dict items))])"
  by (simp add: repair_def)

lemma repair_dict:
  "repair (JDict d) =
     (case map_of d (pys ''Slides'') of None \<Rightarrow> None
      | Some v \<Rightarrow> Some (JDict [(pys ''slides'', v)]))"
  by (simp add: repair_def dict_get_def split: option.splits)

lemma repair_other: "\<forall>items. raw \<noteq> JList items \<Longrightarrow> \<forall>d. raw \<noteq> JDict d \<Longrightarrow> repair raw = None"
  by (cases raw) (simp_all add: repair_def)

text \<open>
  Claim C4, as amended. For every raw mapping that fails normalization and holds the key
  \<open>"Slides"\<close> in exactly this casing, the handler moves that key's value to the key
  \<open>"slides"\<close> and calls the normalizer on the repaired mapping exactly once: the calls are
  the one on the raw mapping and the one on the repaired mapping, and the result is the
  result of the second. A failing mapping without the key \<open>"Slides"\<close> (whatever other
  casings of it are there) is not repaired: the normalizer is not called again and the
  original error leaves the handler.
\<close>

theorem repair_Slides_key:
  "(validate_slide_json repr (JDict d) = Inl e \<and> map_of d (pys ''Slides'') = Some v \<longrightarrow>
      normalize_or_repair repr (JDict d) =
        \<lparr>validate_calls = [JDict d, JDict [(pys ''slides'', v)]],
         slides_or_error = validate_slide_json repr (JDict [(pys ''slides'', v)])\<rparr>) \<and>
   (validate_slide_json repr (JDict d) = Inl e \<and> map_of d (pys ''Slides'') = None \<longrightarrow>
      normalize_or_repair repr (JDict d) =
        \<lparr>validate_calls = [JDict d], slides_or_error = Inl e\<rparr>)"
  by (simp add: normalize_or_repair_failed repair_dict)

text \<open>
  The claim as written fails for the key \<open>"SLIDES"\<close>: it equals \<open>"slides"\<close> when case is
  ignored, normalization of the mapping fails, yet nothing is moved and the normalizer is
  called once only, on the raw mapping.
\<close>

theorem repair_Slides_key_counterexample:
  "lower (pys ''SLIDES'') = pys ''slides'' \<and>
   validate_slide_json repr_unused
     (JDict [(pys ''SLIDES'', JList [JDict [(pys ''title'', JStr (pys ''T''))]])]) =
     Inl no_slides_list \<and>
   repair (JDict [(pys ''SLIDES'', JList [JDict [(pys ''title'', JStr (pys ''T''))]])]) = None \<and>
   normalize_or_repair repr_unused
     (JDict [(pys ''SLIDES'', JList [JDict [(pys ''title'', JStr (pys ''T''))]])]) =
     \<lparr>validate_calls = [JDict [(pys ''SLIDES'', JList [JDict [(pys ''title'', JStr (pys ''T''))]])]],
      slides_or_error = Inl no_slides_list\<rparr>"
  by (simp add: normalize_or_repair_def repair_def validate_slide_json_def pys_def lower_def)

theorem repair_Slides_key_witness:
  "validate_slide_json repr_unused
     (JDict [(pys ''Slides'', JList [JDict [(pys ''title'', JStr (pys ''T''))]])]) =
     Inl no_slides_list \<and>
   normalize_or_repair repr_unused
     (JDict [(pys ''Slides'', JList [JDict [(pys ''title'', JStr (pys ''T''))]])]) =
     \<lparr>validate_calls =
        [JDict [(pys ''Slides'', JList [JDict [(pys ''title'', JStr (pys ''T''))]])],
         JDict [(pys ''slides'', JList [JDict [(pys ''title'', JStr (pys ''T''))]])]],
      slides_or_error =
        Inr [\<lparr>slide_title = Some (pys ''T''), slide_bullets = Some [], slide_notes = Some []\<rparr>]\<rparr> \<and>
   validate_slide_json repr_unused (JDict [(pys ''Title'', JStr (pys ''T''))]) = Inl no_slides_list \<and>
   normalize_or_repair repr_unused (JDict [(pys ''Title'', JStr (pys ''T''))]) =
     \<lparr>validate_calls = [JDict [(pys ''Title'', JStr (pys ''T''))]],
      slides_or_error = Inl no_slides_list\<rparr>"
proof -
  let ?v = "JList [JDict [(pys ''title'', JStr (pys ''T''))]]"
  let ?d = "[(pys ''Slides'', ?v)]"
  let ?d' = "[(pys ''Title'', JStr (pys ''T''))]"
  have f: "validate_slide_json repr_unused (JDict ?d) = Inl no_slides_list"
    by (simp add: validate_slide_json_def pys_def)
  have k: "map_of ?d (pys ''Slides'') = Some ?v" by simp
  have r: "validate_slide_json repr_unused (JDict [(pys ''slides'', ?v)]) =
      Inr [\<lparr>slide_title = Some (pys ''T''), slide_bullets = Some [], slide_notes = Some []\<rparr>]"
    by (simp add: json_eval)
  have f': "validate_slide_json repr_unused (JDict ?d') = Inl no_slides_list"
    by (simp add: validate_slide_json_def pys_def)
  have k': "map_of ?d' (pys ''Slides'') = None" by (simp add: pys_def)
  show ?thesis
    using repair_Slides_key [of repr_unused ?d no_slides_list ?v]
      repair_Slides_key [of repr_unused ?d' no_slides_list ?v] f k r f' k'
    by simp
qed

text \<open>
  Claim C5, as amended. When the reshaping applies and the reshaped candidate fails
  normalization, the error that leaves the handler is the one raised by normalizing the
  reshaped candidate; the original error leaves it only when no reshaping applies. The
  repair reshapes and invents nothing: the candidate is a mapping with the single key
  \<open>"slides"\<close>, whose value is the list of the mappings of the raw sequence, unchanged and in
  their order (elements that are not mappings are left out), or the unchanged value of
  the raw mapping's key \<open>"Slides"\<close>.
\<close>

theorem repair_error_and_content:
  "(validate_slide_json repr raw = Inl e \<and> repair raw = Some repaired \<and>
      validate_slide_json repr repaired = Inl e' \<longrightarrow>
      slides_or_error (normalize_or_repair repr raw) = Inl e') \<and>
   (validate_slide_json repr raw = Inl e \<and> repair raw = None \<longrightarrow>
      slides_or_error (normalize_or_repair repr raw) = Inl e) \<and>
   (repair raw = Some repaired \<longrightarrow>
      (\<exists>ss. repaired = JDict [(pys ''slides'', ss)] \<and>
         (\<forall>items. raw = JList items \<longrightarrow>
            ss = JList (filter is_dict items) \<and> subseq (filter is_dict items) items) \<and>
         (\<forall>d. raw = JDict d \<longrightarrow> map_of d (pys ''Slides'') = Some ss)))"
proof (intro conjI impI)
  assume "validate_slide_json repr raw = Inl e \<and> repair raw = Some repaired \<and>
      validate_slide_json repr repaired = Inl e'"
  then show "slides_or_error (normalize_or_repair repr raw) = Inl e'"
    by (simp add: normalize_or_repair_failed)
next
  assume "validate_slide_json repr raw = Inl e \<and> repair raw = None"
  then show "slides_or_error (normalize_or_repair repr raw) = Inl e"
    by (simp add: normalize_or_repair_failed)
next
  assume r: "repair raw = Some repaired"
  show "\<exists>ss. repaired = JDict [(pys ''slides'', ss)] \<and>
         (\<forall>items. raw = JList items \<longrightarrow>
            ss = JList (filter is_dict items) \<and> subseq (filter is_dict items) items) \<and>
         (\<forall>d. raw = JDict d \<longrightarrow> map_of d (pys ''Slides'') = Some ss)"
  proof (cases raw)
    case (JList items)
    with r show ?thesis by (auto simp: repair_list)
  next
    case (JDict d)
    with r show ?thesis by (auto simp: repair_dict split: option.splits)
  qed (use r in \<open>simp_all add: repair_def\<close>)
qed

text \<open>
  The claim as written fails for the empty sequence: the first normalization raises
  "LLM did not return a 'slides' list", the reshaped candidate fails too, and what leaves
  the handler is "'slides' must be a non-empty list", not the original error.
\<close>

theorem repair_error_and_content_counterexample:
  "validate_slide_json repr_unused (JList []) = Inl no_slides_list \<and>
   repair (JList []) = Some (JDict [(pys ''slides'', JList [])]) \<and>
   validate_slide_json repr_unused (JDict [(pys ''slides'', JList [])]) =
     Inl slides_not_nonempty_list \<and>
   slides_or_error (normalize_or_repair repr_unused (JList [])) = Inl slides_not_nonempty_list \<and>
   slides_not_nonempty_list \<noteq> no_slides_list"
  by (simp add: normalize_or_repair_def repair_def validate_slide_json_def
      slides_not_nonempty_list_def no_slides_list_def)

theorem repair_error_and_content_witness:
  "slides_or_error (normalize_or_repair repr_unused (JList [JStr (pys ''stray'')])) =
     Inl slides_not_nonempty_list \<and>
   slides_or_error (normalize_or_repair repr_unused JNull) = Inl no_slides_list \<and>
   repair (JList [JDict [(pys ''title'', JStr (pys ''A''))], JStr (pys ''stray'')]) =
     Some (JDict [(pys ''slides'', JList [JDict [(pys ''title'', JStr (pys ''A''))]])])"
proof -
  let ?raw = "JList [JStr (pys ''stray'')]"
  let ?raw2 = "JList [JDict [(pys ''title'', JStr (pys ''A''))], JStr (pys ''stray'')]"
  have a: "validate_slide_json repr_unused ?raw = Inl no_slides_list"
    by (simp add: validate_slide_json_def)
  have b: "repair ?raw = Some (JDict [(pys ''slides'', JList [])])"
    by (simp add: repair_def)
  have c: "validate_slide_json repr_unused (JDict [(pys ''slides'', JList [])]) =
      Inl slides_not_nonempty_list"
    by (simp add: validate_slide_json_def)
  have d: "validate_slide_json repr_unused JNull = Inl no_slides_list"
    by (simp add: validate_slide_json_def)
  have e: "repair JNull = None" by (simp add: repair_def)
  have f: "repair ?raw2 = Some (JDict [(pys ''slides'', JList [JDict [(pys ''title'', JStr (pys ''A''))]])])"
    by (simp add: repair_def)
  show ?thesis
    using repair_error_and_content [of repr_unused ?raw no_slides_list
        "JDict [(pys ''slides'', JList [])]" slides_not_nonempty_list]
      repair_error_and_content [of repr_unused JNull no_slides_list
        "JDict [(pys ''slides'', JList [])]" slides_not_nonempty_list]
      repair_error_and_content [of repr_unused ?raw2 no_slides_list
        "JDict [(pys ''slides'', JList [JDict [(pys ''title'', JStr (pys ''A''))]])]"
        slides_not_nonempty_list]
      a b c d e f
    by simp
qed

subsection \<open>The content request\<close>

lemma wait_values:
  "wait_exponential 1 1 8 1 = 1" "wait_exponential 1 1 8 2 = 2"
  by (simp_all add: wait_exponential_def)

lemma retry_third:
  "retry 3 wait fn 3 s =
     (if isl (fn 3)
      then \<lparr>attempts = 3, sleeps = s, outcome = Inl (RetryError (projl (fn 3)))\<rparr>
      else \<lparr>attempts = 3, sleeps = s, outcome = fn 3\<rparr>)"
  by (subst retry.simps) simp

lemma retry_second:
  "retry 3 wait fn 2 s =
     (if isl (fn 2) then retry 3 wait fn 3 (s @ [wait 2])
      else \<lparr>attempts = 2, sleeps = s, outcome = fn 2\<rparr>)"
  by (subst retry.simps) simp

lemma retry_first:
  "retry 3 wait fn 1 s =
     (if isl (fn 1) then retry 3 wait fn 2 (s @ [wait 1])
      else \<lparr>attempts = 1, sleeps = s, outcome = fn 1\<rparr>)"
proof -
  have "(1::nat) + 1 = 2" by simp
  then show ?thesis by (subst retry.simps) (simp del: One_nat_def)
qed

lemma retry_three:
  "retry 3 wait fn 1 [] =
     (if isl (fn 1) then
        (if isl (fn 2) then
           (if isl (fn 3)
            then \<lparr>attempts = 3, sleeps = [wait 1, wait 2],
                  outcome = Inl (RetryError (projl (fn 3)))\<rparr>
            else \<lparr>attempts = 3, sleeps = [wait 1, wait 2], outcome = fn 3\<rparr>)
         else \<lparr>attempts = 2, sleeps = [wait 1], outcome = fn 2\<rparr>)
      else \<lparr>attempts = 1, sleeps = [], outcome = fn 1\<rparr>)"
  by (simp only: retry_first retry_second retry_third append.simps)

lemma attempt_without_key:
  "OpenAI_installed w \<Longrightarrow> OPENAI_API_KEY w = None \<or> OPENAI_API_KEY w = Some [] \<Longrightarrow>
   call_openai_json_attempt w prompt model n = Inl key_not_set"
  by (auto simp: call_openai_json_attempt_def)

lemma call_openai_json_unfolded:
  "call_openai_json w prompt model =
     (if isl (call_openai_json_attempt w prompt model 1) then
        (if isl (call_openai_json_attempt w prompt model 2) then
           (if isl (call_openai_json_attempt w prompt model 3)
            then \<lparr>attempts = 3, sleeps = [1, 2],
                  outcome = Inl (RetryError (projl (call_openai_json_attempt w prompt model 3)))\<rparr>
            else \<lparr>attempts = 3, sleeps = [1, 2],
                  outcome = call_openai_json_attempt w prompt model 3\<rparr>)
         else \<lparr>attempts = 2, sleeps = [1], outcome = call_openai_json_attempt w prompt model 2\<rparr>)
      else \<lparr>attempts = 1, sleeps = [], outcome = call_openai_json_attempt w prompt model 1\<rparr>)"
  by (simp only: call_openai_json_def retry_three wait_values)

text \<open>
  Claim C3, as amended. \<open>call_openai_json\<close> makes at least one and at most three attempts
  and sleeps once between two attempts. It retries on every exception an attempt raises,
  whatever its kind: every attempt before the last one failed, a successful attempt ends
  the call with its value, and a failed attempt ends the call only when it is the third,
  with \<open>RetryError\<close>. A missing credential is no exception to this: when the package is
  installed and \<open>OPENAI_API_KEY\<close> is unset or empty, the call makes all three attempts with
  the two backoff sleeps (1 and 2) between them and then fails.
\<close>

theorem call_openai_json_retries:
  "(let r = call_openai_json w prompt model; fn = call_openai_json_attempt w prompt model in
     1 \<le> attempts r \<and> attempts r \<le> 3 \<and> length (sleeps r) = attempts r - 1 \<and>
     (\<forall>n. 1 \<le> n \<and> n < attempts r \<longrightarrow> isl (fn n)) \<and>
     (\<not> isl (fn (attempts r)) \<longrightarrow> outcome r = fn (attempts r)) \<and>
     (isl (fn (attempts r)) \<longrightarrow>
        attempts r = 3 \<and> outcome r = Inl (RetryError (projl (fn 3)))) \<and>
     (OpenAI_installed w \<and> (OPENAI_API_KEY w = None \<or> OPENAI_API_KEY w = Some []) \<longrightarrow>
        attempts r = 3 \<and> sleeps r = [1, 2] \<and> outcome r = Inl (RetryError key_not_set)))"
proof -
  let ?fn = "call_openai_json_attempt w prompt model"
  let ?r = "call_openai_json w prompt model"
  note r = call_openai_json_unfolded [of w prompt model]
  have lo: "1 \<le> attempts ?r" by (simp add: r)
  have hi: "attempts ?r \<le> 3" by (simp add: r)
  have sl: "length (sleeps ?r) = attempts ?r - 1" by (simp add: r)
  have f1: "isl (?fn 1)" if "1 < attempts ?r"
    using that by (simp add: r split: if_splits)
  have f2: "isl (?fn 2)" if "2 < attempts ?r"
    using that by (simp add: r split: if_splits)
  have before: "\<forall>n. 1 \<le> n \<and> n < attempts ?r \<longrightarrow> isl (?fn n)"
  proof (intro allI impI)
    fix n assume n: "1 \<le> n \<and> n < attempts ?r"
    then have "n = 1 \<or> n = 2" using hi by arith
    then show "isl (?fn n)" using n f1 f2 by blast
  qed
  have ok: "\<not> isl (?fn (attempts ?r)) \<longrightarrow> outcome ?r = ?fn (attempts ?r)"
    by (simp add: r)
  have bad: "isl (?fn (attempts ?r)) \<longrightarrow>
        attempts ?r = 3 \<and> outcome ?r = Inl (RetryError (projl (?fn 3)))"
    by (simp add: r)
  have key: "OpenAI_installed w \<and> (OPENAI_API_KEY w = None \<or> OPENAI_API_KEY w = Some []) \<longrightarrow>
        attempts ?r = 3 \<and> sleeps ?r = [1, 2] \<and> outcome ?r = Inl (RetryError key_not_set)"
  proof
    assume "OpenAI_installed w \<and> (OPENAI_API_KEY w = None \<or> OPENAI_API_KEY w = Some [])"
    then have "?fn n = Inl key_not_set" for n
      using attempt_without_key [of w prompt model n] by blast
    then show "attempts ?r = 3 \<and> sleeps ?r = [1, 2] \<and> outcome ?r = Inl (RetryError key_not_set)"
      by (simp add: r)
  qed
  show ?thesis unfolding Let_def by (intro conjI lo hi sl before ok bad key)
qed

text \<open>
  The claim as written fails where the credential is missing: the call does not fail on
  the first attempt without retry and sleep, it makes three attempts and sleeps twice.
\<close>

theorem call_openai_json_retries_counterexample:
  "OpenAI_installed world_without_key \<and> OPENAI_API_KEY world_without_key = None \<and>
   attempts (call_openai_json world_without_key (pys ''prompt'') (pys ''gpt-4o-mini'')) = 3 \<and>
   sleeps (call_openai_json world_without_key (pys ''prompt'') (pys ''gpt-4o-mini'')) = [1, 2] \<and>
   outcome (call_openai_json world_without_key (pys ''prompt'') (pys ''gpt-4o-mini'')) =
     Inl (RetryError key_not_set)"
proof -
  have "call_openai_json_attempt world_without_key (pys ''prompt'') (pys ''gpt-4o-mini'') n =
      Inl key_not_set" for n
    by (simp add: call_openai_json_attempt_def world_without_key_def)
  then show ?thesis
    by (simp add: call_openai_json_unfolded) (simp add: world_without_key_def)
qed

theorem call_openai_json_retries_witness:
  "OpenAI_installed world_without_key \<and> OPENAI_API_KEY world_without_key = None \<and>
   attempts (call_openai_json world_without_key (pys ''prompt'') (pys ''gpt-4o-mini'')) = 3 \<and>
   isl (call_openai_json_attempt world_without_key (pys ''prompt'') (pys ''gpt-4o-mini'') 2) \<and>
   length (sleeps (call_openai_json world_without_key (pys ''prompt'') (pys ''gpt-4o-mini''))) = 2"
proof -
  have h: "OpenAI_installed world_without_key \<and> OPENAI_API_KEY world_without_key = None"
    by (simp add: world_without_key_def)
  have t: "attempts (call_openai_json world_without_key (pys ''prompt'') (pys ''gpt-4o-mini'')) = 3 \<and>
      sleeps (call_openai_json world_without_key (pys ''prompt'') (pys ''gpt-4o-mini'')) = [1, 2]"
    and b: "\<forall>n. 1 \<le> n \<and>
        n < attempts (call_openai_json world_without_key (pys ''prompt'') (pys ''gpt-4o-mini'')) \<longrightarrow>
        isl (call_openai_json_attempt world_without_key (pys ''prompt'') (pys ''gpt-4o-mini'') n)"
    using call_openai_json_retries [of world_without_key "pys ''prompt''" "pys ''gpt-4o-mini''"] h
    unfolding Let_def by blast+
  have "isl (call_openai_json_attempt world_without_key (pys ''prompt'') (pys ''gpt-4o-mini'') 2)"
    using b t by simp
  then show ?thesis using h t by simp
qed


subsection \<open>The renderer\<close>

lemma xml_text_append: "xml_text (a @ b) \<longleftrightarrow> xml_text a \<and> xml_text b"
  by (simp add: xml_text_def)

lemma str_nat_digits: "\<forall>c\<in>set (str_nat n). 48 \<le> c \<and> c \<le> 57"
proof (induction n rule: str_nat.induct)
  case (1 n)
  show ?case
  proof (cases "n < 10")
    case True
    then show ?thesis by (simp add: str_nat.simps [of n])
  next
    case False
    have "n mod 10 < 10" by simp
    then have "48 + n mod 10 \<le> 57" by arith
    with False 1 show ?thesis by (simp add: str_nat.simps [of n])
  qed
qed

lemma xml_text_str_nat: "xml_text (str_nat n)"
  using str_nat_digits [of n] by (auto simp: xml_text_def xml_char_def list_all_iff)

lemma xml_text_placeholder: "xml_text (pys ''Slide '' @ str_nat n)"
  by (simp add: xml_text_append xml_text_str_nat) (simp add: xml_text_def xml_char_def pys_def)

lemma xml_text_caption: "xml_text caption"
  by (simp add: caption_def xml_text_def xml_char_def pys_def)

lemma xml_text_emoji: "xml_text (EMOJIS ! (idx mod length EMOJIS))"
proof -
  have "idx mod 5 < 5" by simp
  then have "idx mod 5 = 0 \<or> idx mod 5 = 1 \<or> idx mod 5 = 2 \<or> idx mod 5 = 3 \<or> idx mod 5 = 4"
    by arith
  then show ?thesis by (auto simp: EMOJIS_def xml_text_def xml_char_def)
qed

lemma xml_text_bullet_text:
  "xml_text (bullet_text (EMOJIS ! (idx mod length EMOJIS)) b) = xml_text b"
proof -
  have "xml_text (pys '' '')" by (simp add: xml_text_def xml_char_def pys_def)
  then show ?thesis by (simp add: bullet_text_def xml_text_append xml_text_emoji)
qed

lemma assign_texts_eq:
  "assign_texts ts = (if list_all xml_text ts then Inr ts else Inl xml_incompatible)"
  by (induction ts) (simp_all add: assign_text_def)

lemma xml_text_title:
  "xml_text (title_or_placeholder idx s) \<longleftrightarrow>
     (case slide_title s of None \<Rightarrow> True | Some t \<Rightarrow> xml_text t)"
proof -
  have "xml_text []" by (simp add: xml_text_def)
  then show ?thesis
    by (simp add: title_or_placeholder_def xml_text_placeholder split: option.splits)
qed

text \<open>
  An iteration raises exactly when one of the record's strings is not XML-compatible;
  otherwise it leaves the slide of its branch with the drawn background and the notes.
\<close>

lemma render_slide_eq:
  "render_slide r idx s =
     (if slide_xml_ok s then
        Inr ((if (case slide_notes s of None \<Rightarrow> [] | Some n \<Rightarrow> n) \<noteq> []
              then (\<lambda>slide. slide\<lparr>notes_text := slide_notes s\<rparr>) else (\<lambda>slide. slide))
             (set_slide_background r
               (if idx = 0 \<and> (case slide_bullets s of None \<Rightarrow> [] | Some bs \<Rightarrow> bs) = []
                then title_slide (title_or_placeholder idx s)
                else content_slide idx (title_or_placeholder idx s)
                       (case slide_bullets s of None \<Rightarrow> [] | Some bs \<Rightarrow> bs)) None))
      else Inl xml_incompatible)"
proof -
  have e: "xml_text []" by (simp add: xml_text_def)
  have b: "list_all xml_text (map (bullet_text (EMOJIS ! (idx mod length EMOJIS))) bs) =
      list_all xml_text bs" for bs
    by (induction bs) (simp_all add: xml_text_bullet_text)
  show ?thesis
    by (cases "slide_bullets s"; cases "slide_notes s")
      (auto simp: render_slide_def Let_def assign_text_def assign_texts_eq attach_notes_def
        slide_xml_ok_def xml_text_title xml_text_caption b e)
qed


lemma render_slide_ok:
  assumes "slide_xml_ok s"
  shows "render_slide r idx s = Inr (projr (render_slide r idx s))"
    and "p_text (title_shape (projr (render_slide r idx s))) = title_or_placeholder idx s"
    and "notes_text (projr (render_slide r idx s)) =
      (case slide_notes s of None \<Rightarrow> None | Some n \<Rightarrow> if n = [] then None else Some n)"
    and "background (projr (render_slide r idx s)) = Some (COLOR_PALETTE ! (r mod 5))"
    and "layout (projr (render_slide r idx s)) =
      (if idx = 0 \<and> (slide_bullets s = None \<or> slide_bullets s = Some []) then 0 else 1)"
  using assms
  by (auto simp: render_slide_eq title_slide_def content_slide_def add_slide_def Let_def
      set_slide_background_def random_choice_def COLOR_PALETTE_def split: option.splits)




lemma palette_not_accent: "k < 5 \<Longrightarrow> COLOR_PALETTE ! k \<noteq> (25, 50, 100)"
proof -
  assume "k < 5"
  then have "k = 0 \<or> k = 1 \<or> k = 2 \<or> k = 3 \<or> k = 4" by arith
  then show ?thesis by (auto simp: COLOR_PALETTE_def)
qed

lemma render_loop_ok:
  "list_all slide_xml_ok ss \<Longrightarrow>
   render_loop rnd idx ss prs =
     Inr (prs @ map (\<lambda>k. projr (render_slide (rnd (idx + k)) (idx + k) (ss ! k))) [0..<length ss])"
proof (induction ss arbitrary: idx prs)
  case Nil
  then show ?case by simp
next
  case (Cons s ss)
  then have s: "slide_xml_ok s" and ss: "list_all slide_xml_ok ss" by simp_all
  have m: "map (\<lambda>k. projr (render_slide (rnd (idx + k)) (idx + k) ((s # ss) ! k)))
        [0..<length (s # ss)] =
      projr (render_slide (rnd idx) idx s) #
      map (\<lambda>k. projr (render_slide (rnd (Suc idx + k)) (Suc idx + k) (ss ! k))) [0..<length ss]"
    by (simp add: map_upt_Suc del: upt_Suc)
  obtain slide where sl: "render_slide (rnd idx) idx s = Inr slide"
    using render_slide_ok(1) [OF s] by blast
  have "render_loop rnd idx (s # ss) prs = render_loop rnd (Suc idx) ss (prs @ [slide])"
    by (simp add: sl)
  moreover have "projr (render_slide (rnd idx) idx s) = slide" by (simp add: sl)
  ultimately show ?case by (simp only: Cons.IH [OF ss] m) simp
qed


lemma create_pptx_ok:
  "list_all slide_xml_ok slides \<Longrightarrow>
   create_pptx True rnd slides outfile =
     Inr (map (\<lambda>k. projr (render_slide (rnd k) k (slides ! k))) [0..<length slides],
          output_name outfile)"
  by (simp add: create_pptx_def render_loop_ok)










text \<open>
  Claim C2, where the code departs from it. For a deck whose first record has no bullets,
  the first slide takes the title layout and the branch sets its background to the dark
  accent color \<open>(25, 50, 100)\<close>; but \<open>set_slide_background(slide)\<close>, called on every slide
  after the branch, replaces it: whatever the generator draws, the rendered title slide
  ends with a color of the palette, never with the accent color.
\<close>

theorem title_slide_background_overwritten:
  "\<exists>prs path.
     create_pptx True rnd
       [\<lparr>slide_title = Some (pys ''T''), slide_bullets = Some [], slide_notes = Some []\<rparr>]
       outfile = Inr (prs, path) \<and>
     length prs = 1 \<and> layout (prs ! 0) = 0 \<and>
     background (title_slide (pys ''T'')) = Some (25, 50, 100) \<and>
     background (prs ! 0) = Some (COLOR_PALETTE ! (rnd 0 mod 5)) \<and>
     background (prs ! 0) \<noteq> Some (25, 50, 100)"
proof -
  let ?s = "\<lparr>slide_title = Some (pys ''T''), slide_bullets = Some [], slide_notes = Some []\<rparr>"
  let ?sl = "projr (render_slide (rnd 0) 0 ?s)"
  have ok: "slide_xml_ok ?s"
    by (simp add: slide_xml_ok_def xml_text_def xml_char_def pys_def)
  then have "list_all slide_xml_ok [?s]" by simp
  then have run: "create_pptx True rnd [?s] outfile = Inr ([?sl], output_name outfile)"
    using create_pptx_ok [of "[?s]" rnd outfile] by simp
  have l: "layout ?sl = 0" using render_slide_ok(5) [OF ok, of "rnd 0" 0] by simp
  have t: "background (title_slide (pys ''T'')) = Some (25, 50, 100)"
    by (simp add: title_slide_def Let_def add_slide_def)
  have b: "background ?sl = Some (COLOR_PALETTE ! (rnd 0 mod 5))"
    using ok by (rule render_slide_ok(4))
  have "COLOR_PALETTE ! (rnd 0 mod 5) \<noteq> (25, 50, 100)"
    by (rule palette_not_accent) simp
  then have n: "background ?sl \<noteq> Some (25, 50, 100)"
    by (simp add: b)
  have len: "length [?sl] = 1" by simp
  have l0: "layout ([?sl] ! 0) = 0" using l by simp
  have b0: "background ([?sl] ! 0) = Some (COLOR_PALETTE ! (rnd 0 mod 5))" using b by simp
  have n0: "background ([?sl] ! 0) \<noteq> Some (25, 50, 100)" using n by simp
  show ?thesis
    by (rule exI [of _ "[?sl]"], rule exI [of _ "output_name outfile"])
      (intro conjI run len l0 t b0 n0)
qed

end
